theory Spec2Isabelle
  imports Main
begin

section \<open>Data model of package git (pkg/git/repository.go)\<close>

text \<open>
  A Go \<open>error\<close> is a value carrying a message; \<open>errors.New\<close> builds one from a string.
  Errors handed back by the filesystem and by the version-control engine are values of the
  same type. A \<open>nil\<close> error is \<open>None\<close> of type \<open>error option\<close>.
\<close>

datatype error = Error string

definition errors_New :: "string \<Rightarrow> error" where
  "errors_New msg = Error msg"

text \<open>\<open>os.ErrInvalid\<close>, which the methods of a nil \<open>*os.File\<close> return.\<close>

definition os_ErrInvalid :: error where
  "os_ErrInvalid = errors_New ''invalid argument''"

text \<open>\<open>time.Time\<close> is kept as a timestamp.\<close>

type_synonym time = nat

record FileInfo =
  Name :: string
  ModTime :: time

text \<open>
  The types \<open>Branch\<close>, \<open>RemoteBranch\<close>, \<open>Remote\<close> and \<open>Commit\<close> are declared in other
  files of the package. repository.go reads \<open>Branch.Name\<close>, \<open>Remote.Name\<close>,
  \<open>Remote.Branch\<close> and \<open>Remote.Branch.Name\<close>; the sequence of remote-tracking branches of a
  remote is the one the data model of the specification gives it.
\<close>

record Branch =
  Name :: string

record RemoteBranch =
  Name :: string

record Remote =
  Name :: string
  Branches :: "RemoteBranch list"
  Branch :: "RemoteBranch option"

record Commit =
  Hash :: string

text \<open>\<open>RepoState\<close> is a \<open>uint8\<close> with the five named constants 0 to 4.\<close>

datatype RepoState = Available | Queued | Working | Success | Fail

text \<open>
  \<open>RepoEntity\<close>. The pointer fields \<open>Branch\<close>, \<open>Remote\<close> and \<open>Commit\<close> are options
  (\<open>None\<close> is nil). The type \<open>'r\<close> is the go-git repository handle.
\<close>

record 'r RepoEntity =
  RepoID :: string
  Name :: string
  AbsPath :: string
  ModTime :: time
  Repository :: 'r
  Branch :: "Branch option"
  Branches :: "Branch list"
  Remote :: "Remote option"
  Remotes :: "Remote list"
  Commit :: "Commit option"
  Commits :: "Commit list"
  State :: RepoState

section \<open>The surroundings of an entity\<close>

text \<open>One logrus entry: the fields given to \<open>WithFields\<close> and the message given to \<open>Trace\<close>.\<close>

datatype log_entry = Trace "(string \<times> string) list" string

text \<open>
  The history of calls: one event for every call that the five functions of repository.go
  make to a function outside the file, and one for every entry into \<open>Refresh\<close>.
\<close>

datatype call =
    Call_os_Open string
  | Call_Stat
  | Call_PlainOpen string
  | Call_RandomString nat
  | Call_loadLocalBranches
  | Call_loadCommits
  | Call_loadRemotes
  | Call_getActiveBranch
  | Call_switchRemoteBranch string
  | Call_FetchWithGit string
  | Call_Checkout "Branch option"
  | Call_MergeWithGit string
  | Call_Refresh

text \<open>
  What surrounds an entity: the on-disk world \<open>'w\<close> (filesystem and repositories), the log
  written so far and the history of calls.
\<close>

record 'w sys =
  world :: 'w
  log :: "log_entry list"
  calls :: "call list"

text \<open>
  The filesystem and the version-control engine are given: \<open>os.Open\<close>, \<open>File.Stat\<close>,
  \<open>git.PlainOpen\<close>, \<open>helpers.RandomString\<close> and the capabilities of the engine that the
  methods declared in the other files of the package rest on. Reading leaves the world as it
  is; fetch, merge and checkout give back the world they leave behind. The three listing
  capabilities give the error of the load and the sequence the load leaves in the entity.
\<close>

record ('w, 'f, 'r) env =
  os_Open :: "'w \<Rightarrow> string \<Rightarrow> error + 'f"
  file_Stat :: "'w \<Rightarrow> 'f \<Rightarrow> error + FileInfo"
  git_PlainOpen :: "'w \<Rightarrow> string \<Rightarrow> error + 'r"
  helpers_RandomString :: "'w \<Rightarrow> nat \<Rightarrow> string"
  adapter_ListLocalBranches :: "'w \<Rightarrow> 'r RepoEntity \<Rightarrow> error option \<times> Branch list"
  adapter_ListCommits :: "'w \<Rightarrow> 'r RepoEntity \<Rightarrow> error option \<times> Commit list"
  adapter_ListRemotes :: "'w \<Rightarrow> 'r RepoEntity \<Rightarrow> error option \<times> Remote list"
  adapter_CurrentHead :: "'w \<Rightarrow> 'r \<Rightarrow> string"
  adapter_Fetch :: "'w \<Rightarrow> 'r RepoEntity \<Rightarrow> string \<Rightarrow> error option \<times> 'w"
  adapter_Merge :: "'w \<Rightarrow> 'r RepoEntity \<Rightarrow> string \<Rightarrow> error option \<times> 'w"
  adapter_Checkout :: "'w \<Rightarrow> 'r RepoEntity \<Rightarrow> Branch option \<Rightarrow> error option \<times> 'w"

text \<open>A call either returns or panics on a nil pointer.\<close>

datatype 'a outcome = Panic | Done 'a

definition called :: "call \<Rightarrow> 'w sys \<Rightarrow> 'w sys" where
  "called c s = s\<lparr>calls := calls s @ [c]\<rparr>"

definition logged :: "log_entry \<Rightarrow> 'w sys \<Rightarrow> 'w sys" where
  "logged l s = s\<lparr>log := log s @ [l]\<rparr>"

section \<open>Methods declared in other files of the package\<close>

text \<open>
  Modelled from the spec: \<open>loadLocalBranches\<close> is declared outside repository.go. It
  replaces \<open>Branches\<close> wholesale with the local branches the engine lists and gives back
  the error of the load.
\<close>

definition loadLocalBranches ::
  "('w, 'f, 'r) env \<Rightarrow> 'r RepoEntity \<Rightarrow> 'w sys \<Rightarrow> error option \<times> 'r RepoEntity \<times> 'w sys" where
  "loadLocalBranches env e s =
     (let (err, bs) = adapter_ListLocalBranches env (world s) e
      in (err, e\<lparr>Branches := bs\<rparr>, called Call_loadLocalBranches s))"

text \<open>
  Modelled from the spec: \<open>loadCommits\<close> is declared outside repository.go. It replaces
  \<open>Commits\<close> wholesale with the commits the engine lists and gives back the error of the
  load.
\<close>

definition loadCommits ::
  "('w, 'f, 'r) env \<Rightarrow> 'r RepoEntity \<Rightarrow> 'w sys \<Rightarrow> error option \<times> 'r RepoEntity \<times> 'w sys" where
  "loadCommits env e s =
     (let (err, cs) = adapter_ListCommits env (world s) e
      in (err, e\<lparr>Commits := cs\<rparr>, called Call_loadCommits s))"

text \<open>
  Modelled from the spec: \<open>loadRemotes\<close> is declared outside repository.go. It replaces
  \<open>Remotes\<close> wholesale with the remotes the engine lists and gives back the error of the
  load.
\<close>

definition loadRemotes ::
  "('w, 'f, 'r) env \<Rightarrow> 'r RepoEntity \<Rightarrow> 'w sys \<Rightarrow> error option \<times> 'r RepoEntity \<times> 'w sys" where
  "loadRemotes env e s =
     (let (err, rs) = adapter_ListRemotes env (world s) e
      in (err, e\<lparr>Remotes := rs\<rparr>, called Call_loadRemotes s))"

text \<open>
  Modelled from the spec: \<open>getActiveBranch\<close> is declared outside repository.go. The
  active branch is whichever local branch corresponds to the HEAD the engine reports, nil
  when there is none.
\<close>

definition getActiveBranch ::
  "('w, 'f, 'r) env \<Rightarrow> 'r RepoEntity \<Rightarrow> 'w sys \<Rightarrow> Branch option \<times> 'w sys" where
  "getActiveBranch env e s =
     (find (\<lambda>b. Branch.Name b = adapter_CurrentHead env (world s) (Repository e)) (Branches e),
      called Call_getActiveBranch s)"

text \<open>
  Modelled from the spec: \<open>switchRemoteBranch\<close> is declared outside repository.go. It
  selects on the remote the remote-tracking branch of the given name; selecting one that
  does not exist is a miss (\<open>RemoteBranchNotFound\<close>) that leaves the prior selection.
\<close>

definition RemoteBranchNotFound :: error where
  "RemoteBranchNotFound = errors_New ''Remote branch not found.''"

definition switchRemoteBranch :: "Remote \<Rightarrow> string \<Rightarrow> error option \<times> Remote" where
  "switchRemoteBranch remote remoteBranchName =
     (case find (\<lambda>rb. RemoteBranch.Name rb = remoteBranchName) (Remote.Branches remote) of
        None \<Rightarrow> (Some RemoteBranchNotFound, remote)
      | Some rb \<Rightarrow> (None, remote\<lparr>Remote.Branch := Some rb\<rparr>))"

text \<open>
  Modelled from the spec: \<open>FetchWithGit\<close> is declared outside repository.go. It is the
  fetch of the engine for the named remote: it acts on the repository on disk and gives
  back an error.
\<close>

definition FetchWithGit ::
  "('w, 'f, 'r) env \<Rightarrow> 'r RepoEntity \<Rightarrow> string \<Rightarrow> 'w sys \<Rightarrow> error option \<times> 'w sys" where
  "FetchWithGit env e rm s =
     (let (err, w) = adapter_Fetch env (world s) e rm
      in (err, called (Call_FetchWithGit rm) (s\<lparr>world := w\<rparr>)))"

text \<open>
  Modelled from the spec: \<open>MergeWithGit\<close> is declared outside repository.go. It is the
  merge of the engine with the named branch as source: it acts on the repository on disk
  and gives back an error.
\<close>

definition MergeWithGit ::
  "('w, 'f, 'r) env \<Rightarrow> 'r RepoEntity \<Rightarrow> string \<Rightarrow> 'w sys \<Rightarrow> error option \<times> 'w sys" where
  "MergeWithGit env e bn s =
     (let (err, w) = adapter_Merge env (world s) e bn
      in (err, called (Call_MergeWithGit bn) (s\<lparr>world := w\<rparr>)))"

text \<open>
  Modelled from the spec: \<open>Checkout\<close> is declared outside repository.go. It is the
  checkout of the engine for the given branch: it acts on the repository on disk and gives
  back an error.
\<close>

definition Checkout ::
  "('w, 'f, 'r) env \<Rightarrow> 'r RepoEntity \<Rightarrow> Branch option \<Rightarrow> 'w sys \<Rightarrow> error option \<times> 'w sys" where
  "Checkout env e b s =
     (let (err, w) = adapter_Checkout env (world s) e b
      in (err, called (Call_Checkout b) (s\<lparr>world := w\<rparr>)))"

section \<open>Refresh\<close>

text \<open>
  \<open>file, _ := os.Open(entity.AbsPath)\<close> drops the error of the open; the file is then nil,
  and \<open>Stat\<close> of a nil file gives \<open>os.ErrInvalid\<close>.
\<close>

definition Stat ::
  "('w, 'f, 'r) env \<Rightarrow> 'f option \<Rightarrow> 'w sys \<Rightarrow> (error + FileInfo) \<times> 'w sys" where
  "Stat env file s =
     (case file of
        None \<Rightarrow> (Inl os_ErrInvalid, called Call_Stat s)
      | Some f \<Rightarrow> (file_Stat env (world s) f, called Call_Stat s))"

definition Open ::
  "('w, 'f, 'r) env \<Rightarrow> string \<Rightarrow> 'w sys \<Rightarrow> (error + 'f) \<times> 'w sys" where
  "Open env path s = (os_Open env (world s) path, called (Call_os_Open path) s)"

definition PlainOpen ::
  "('w, 'f, 'r) env \<Rightarrow> string \<Rightarrow> 'w sys \<Rightarrow> (error + 'r) \<times> 'w sys" where
  "PlainOpen env path s = (git_PlainOpen env (world s) path, called (Call_PlainOpen path) s)"

definition Refresh ::
  "('w, 'f, 'r) env \<Rightarrow> 'r RepoEntity \<Rightarrow> 'w sys \<Rightarrow> error option \<times> 'r RepoEntity \<times> 'w sys" where
  "Refresh env entity s0 =
     (let (opened, s1) = Open env (AbsPath entity) (called Call_Refresh s0);
          file = (case opened of Inl _ \<Rightarrow> None | Inr f \<Rightarrow> Some f);
          (stat, s2) = Stat env file s1
      in case stat of
           Inl err \<Rightarrow> (Some err, entity, s2)
         | Inr fileInfo \<Rightarrow>
             (let (r, s3) = PlainOpen env (AbsPath entity) s2
              in case r of
                   Inl err \<Rightarrow> (Some err, entity, s3)
                 | Inr r \<Rightarrow>
                     (let e1 = entity\<lparr>Repository := r\<rparr>;
                          e2 = e1\<lparr>ModTime := FileInfo.ModTime fileInfo\<rparr>;
                          (err3, e3, s4) = loadLocalBranches env e2 s3
                      in case err3 of
                           Some err \<Rightarrow> (Some err, e3, s4)
                         | None \<Rightarrow>
                             (let (err4, e4, s5) = loadCommits env e3 s4
                              in case err4 of
                                   Some err \<Rightarrow> (Some err, e4, s5)
                                 | None \<Rightarrow>
                                     (let (err5, e5, s6) = loadRemotes env e4 s5
                                      in case err5 of
                                           Some err \<Rightarrow> (Some err, e5, s6)
                                         | None \<Rightarrow> (None, e5, s6))))))"

section \<open>Fetch, Merge and Pull\<close>

text \<open>\<open>entity.Remote.Name\<close> and \<open>entity.Remote.Branch.Name\<close>: \<open>None\<close> is the nil dereference.\<close>

definition Remote_Name :: "'r RepoEntity \<Rightarrow> string option" where
  "Remote_Name entity = (case Remote entity of None \<Rightarrow> None | Some r \<Rightarrow> Some (Remote.Name r))"

definition Remote_Branch_Name :: "'r RepoEntity \<Rightarrow> string option" where
  "Remote_Branch_Name entity =
     (case Remote entity of
        None \<Rightarrow> None
      | Some r \<Rightarrow> (case Remote.Branch r of None \<Rightarrow> None | Some rb \<Rightarrow> Some (RemoteBranch.Name rb)))"

definition Fetch ::
  "('w, 'f, 'r) env \<Rightarrow> 'r RepoEntity \<Rightarrow> 'w sys
     \<Rightarrow> (error option \<times> 'r RepoEntity \<times> 'w sys) outcome" where
  "Fetch env entity s0 =
     (case Remote_Name entity of
        None \<Rightarrow> Panic
      | Some rm \<Rightarrow>
          (let (ferr, s1) = FetchWithGit env entity rm s0
           in case ferr of
                Some err \<Rightarrow>
                  Done (Some err, entity,
                        logged (Trace [(''remote'', rm)] ''Error while fetching remote'') s1)
              | None \<Rightarrow>
                  (let (_, e1, s2) = Refresh env entity s1;
                       (_, s3) = Checkout env e1 (Branch e1) s2
                   in Done (None, e1, s3))))"

definition Merge ::
  "('w, 'f, 'r) env \<Rightarrow> 'r RepoEntity \<Rightarrow> 'w sys
     \<Rightarrow> (error option \<times> 'r RepoEntity \<times> 'w sys) outcome" where
  "Merge env entity s0 =
     (let (_, s1) = Checkout env entity (Branch entity) s0
      in case Remote_Branch_Name entity of
           None \<Rightarrow> Panic
         | Some bn \<Rightarrow>
             (let (merr, s2) = MergeWithGit env entity bn s1
              in case merr of
                   Some err \<Rightarrow>
                     (let s3 = logged (Trace [(''branch'', bn)] ''Error while merge to branch'') s2;
                          (_, e1, s4) = Refresh env entity s3
                      in Done (Some err, e1, s4))
                 | None \<Rightarrow>
                     (let (_, e1, s3) = Refresh env entity s2
                      in Done (None, e1, s3))))"

definition Pull ::
  "('w, 'f, 'r) env \<Rightarrow> 'r RepoEntity \<Rightarrow> 'w sys
     \<Rightarrow> (error option \<times> 'r RepoEntity \<times> 'w sys) outcome" where
  "Pull env entity s0 =
     (case Remote_Name entity of
        None \<Rightarrow> Panic
      | Some rm \<Rightarrow>
          (let (ferr, s1) = FetchWithGit env entity rm s0
           in case ferr of
                Some err \<Rightarrow>
                  Done (Some err, entity,
                        logged (Trace [(''remote'', rm)] ''Error while fetching remote'') s1)
              | None \<Rightarrow>
                  (let (_, s2) = Checkout env entity (Branch entity) s1
                   in case Remote_Branch_Name entity of
                        None \<Rightarrow> Panic
                      | Some bn \<Rightarrow>
                          (let (merr, s3) = MergeWithGit env entity bn s2
                           in case merr of
                                Some err \<Rightarrow>
                                  (let s4 = logged (Trace [(''branch'', bn)]
                                                      ''Error while merge to branch'') s3;
                                       (_, e1, s5) = Refresh env entity s4
                                   in Done (Some err, e1, s5))
                              | None \<Rightarrow>
                                  (let (_, e1, s4) = Refresh env entity s3;
                                       (_, s5) = Checkout env e1 (Branch e1) s4
                                   in Done (None, e1, s5))))))"

section \<open>InitializeRepository\<close>

text \<open>
  \<open>entity.Remote = entity.Remotes[0]\<close> makes \<open>Remote\<close> point at the first element of
  \<open>Remotes\<close>, so the selection that \<open>switchRemoteBranch\<close> writes through \<open>entity.Remote\<close>
  shows in both. \<open>entity.Branch.Name\<close> panics when the active branch is nil.
\<close>

definition InitializeRepository ::
  "('w, 'f, 'r) env \<Rightarrow> string \<Rightarrow> 'w sys
     \<Rightarrow> ('r RepoEntity option \<times> error option \<times> 'w sys) outcome" where
  "InitializeRepository env directory s0 =
     (let (opened, s1) = Open env directory s0
      in case opened of
           Inl err \<Rightarrow>
             Done (None, Some err,
                   logged (Trace [(''directory'', directory)] ''Cannot open as direcotry'') s1)
         | Inr file \<Rightarrow>
             (let (stat, s2) = Stat env (Some file) s1
              in case stat of
                   Inl err \<Rightarrow> Done (None, Some err, s2)
                 | Inr fileInfo \<Rightarrow>
                     (let (r, s3) = PlainOpen env directory s2
                      in case r of
                           Inl err \<Rightarrow>
                             Done (None, Some err,
                                   logged (Trace [(''directory'', directory)]
                                             ''Cannot open direcotry as a git repository'') s3)
                         | Inr r \<Rightarrow>
                             (let s4 = called (Call_RandomString 8) s3;
                                  e0 = \<lparr>RepoID = helpers_RandomString env (world s3) 8,
                                        Name = FileInfo.Name fileInfo,
                                        AbsPath = directory,
                                        ModTime = FileInfo.ModTime fileInfo,
                                        Repository = r,
                                        Branch = None,
                                        Branches = [],
                                        Remote = None,
                                        Remotes = [],
                                        Commit = None,
                                        Commits = [],
                                        State = Available\<rparr>;
                                  (_, e1, s5) = loadLocalBranches env e0 s4;
                                  (_, e2, s6) = loadCommits env e1 s5
                              in case Commits e2 of
                                   [] \<Rightarrow>
                                     Done (Some e2,
                                           Some (errors_New
                                             (''There is no commit for this repository: '' @ directory)),
                                           s6)
                                 | c # _ \<Rightarrow>
                                     (let e3 = e2\<lparr>Commit := Some c\<rparr>;
                                          (_, e4, s7) = loadRemotes env e3 s6;
                                          (active, s8) = getActiveBranch env e4 s7;
                                          e5 = e4\<lparr>Branch := active\<rparr>
                                      in case Remotes e5 of
                                           [] \<Rightarrow>
                                             Done (Some e5,
                                                   Some (errors_New
                                                     (''There is no remote for this repository: '' @ directory)),
                                                   s8)
                                         | remote # rest \<Rightarrow>
                                             (case Branch e5 of
                                                None \<Rightarrow> Panic
                                              | Some b \<Rightarrow>
                                                  (let name = Remote.Name remote @ ''/'' @ Branch.Name b;
                                                       (_, remote') = switchRemoteBranch remote name;
                                                       s9 = called (Call_switchRemoteBranch name) s8
                                                   in Done (Some (e5\<lparr>Remote := Some remote',
                                                                      Remotes := remote' # rest\<rparr>),
                                                            None, s9))))))))"

section \<open>The composition that Pull is compared with\<close>

text \<open>
  The specification compares \<open>Pull\<close> with the fetch of the remote alone
  (\<open>FetchWithGit\<close>, not the composite \<open>Fetch\<close>) followed by the composite \<open>Merge\<close>.
\<close>

definition Fetch_then_Merge ::
  "('w, 'f, 'r) env \<Rightarrow> 'r RepoEntity \<Rightarrow> 'w sys
     \<Rightarrow> (error option \<times> 'r RepoEntity \<times> 'w sys) outcome" where
  "Fetch_then_Merge env entity s0 =
     (case Remote_Name entity of
        None \<Rightarrow> Panic
      | Some rm \<Rightarrow>
          (let (ferr, s1) = FetchWithGit env entity rm s0
           in case ferr of
                Some err \<Rightarrow> Done (Some err, entity, s1)
              | None \<Rightarrow> Merge env entity s1))"

section \<open>The two errors that InitializeRepository builds\<close>

text \<open>
  The code has no error kinds, only messages. The error of the empty repository and the
  error of the repository without remote are named here after the kinds that the
  specification gives them.
\<close>

definition EmptyRepository :: "string \<Rightarrow> error" where
  "EmptyRepository directory =
     errors_New (''There is no commit for this repository: '' @ directory)"

definition NoRemote :: "string \<Rightarrow> error" where
  "NoRemote directory =
     errors_New (''There is no remote for this repository: '' @ directory)"

section \<open>A scripted engine, for examples\<close>

text \<open>
  An engine whose world is a script: every capability answers what the script says and
  leaves the script as it is.
\<close>

record script =
  open_result :: "error option"
  stat_result :: "error + FileInfo"
  plainopen_result :: "error option"
  branches_result :: "error option \<times> Branch list"
  commits_result :: "error option \<times> Commit list"
  remotes_result :: "error option \<times> Remote list"
  head_result :: string
  fetch_result :: "error option"
  merge_result :: "error option"
  checkout_result :: "error option"
  random_result :: string

definition scripted :: "(script, unit, unit) env" where
  "scripted =
     \<lparr>os_Open = (\<lambda>w path. case open_result w of Some err \<Rightarrow> Inl err | None \<Rightarrow> Inr ()),
      file_Stat = (\<lambda>w f. stat_result w),
      git_PlainOpen = (\<lambda>w path. case plainopen_result w of Some err \<Rightarrow> Inl err | None \<Rightarrow> Inr ()),
      helpers_RandomString = (\<lambda>w n. random_result w),
      adapter_ListLocalBranches = (\<lambda>w e. branches_result w),
      adapter_ListCommits = (\<lambda>w e. commits_result w),
      adapter_ListRemotes = (\<lambda>w e. remotes_result w),
      adapter_CurrentHead = (\<lambda>w r. head_result w),
      adapter_Fetch = (\<lambda>w e rm. (fetch_result w, w)),
      adapter_Merge = (\<lambda>w e bn. (merge_result w, w)),
      adapter_Checkout = (\<lambda>w e b. (checkout_result w, w))\<rparr>"

definition master :: Branch where
  "master = \<lparr>Branch.Name = ''master''\<rparr>"

definition origin_master :: RemoteBranch where
  "origin_master = \<lparr>RemoteBranch.Name = ''origin/master''\<rparr>"

definition origin :: Remote where
  "origin = \<lparr>Remote.Name = ''origin'', Branches = [origin_master], Branch = None\<rparr>"

definition upstream :: Remote where
  "upstream = \<lparr>Remote.Name = ''upstream'', Branches = [], Branch = None\<rparr>"

definition demo :: script where
  "demo =
     \<lparr>open_result = None,
      stat_result = Inr \<lparr>FileInfo.Name = ''demo'', ModTime = 7\<rparr>,
      plainopen_result = None,
      branches_result = (None, [master]),
      commits_result = (None, [\<lparr>Hash = ''c3''\<rparr>, \<lparr>Hash = ''c2''\<rparr>, \<lparr>Hash = ''c1''\<rparr>]),
      remotes_result = (None, [origin]),
      head_result = ''master'',
      fetch_result = None,
      merge_result = None,
      checkout_result = None,
      random_result = ''k3x9q2ab''\<rparr>"

definition start :: "script \<Rightarrow> script sys" where
  "start w = \<lparr>world = w, log = [], calls = []\<rparr>"

definition demo_entity :: "unit RepoEntity" where
  "demo_entity =
     \<lparr>RepoID = ''k3x9q2ab'', Name = ''demo'', AbsPath = ''/repos/demo'', ModTime = 7,
      Repository = (),
      Branch = Some master, Branches = [master],
      Remote = Some (origin\<lparr>Remote.Branch := Some origin_master\<rparr>),
      Remotes = [origin\<lparr>Remote.Branch := Some origin_master\<rparr>],
      Commit = Some \<lparr>Hash = ''c3''\<rparr>,
      Commits = [\<lparr>Hash = ''c3''\<rparr>, \<lparr>Hash = ''c2''\<rparr>, \<lparr>Hash = ''c1''\<rparr>],
      State = Available\<rparr>"

definition fetch_fails :: script where
  "fetch_fails = demo\<lparr>fetch_result := Some (Error ''fetch failed'')\<rparr>"

definition merge_fails :: script where
  "merge_fails = demo\<lparr>merge_result := Some (Error ''conflict'')\<rparr>"

definition merge_and_stat_fail :: script where
  "merge_and_stat_fail =
     demo\<lparr>merge_result := Some (Error ''conflict''), stat_result := Inl (Error ''stat failed'')\<rparr>"


definition empty_repo :: script where
  "empty_repo = demo\<lparr>commits_result := (None, [])\<rparr>"

definition no_remotes :: script where
  "no_remotes = demo\<lparr>remotes_result := (None, [])\<rparr>"

definition untracked :: script where
  "untracked = demo\<lparr>remotes_result := (None, [upstream])\<rparr>"

definition untracked_entity :: "unit RepoEntity" where
  "untracked_entity = demo_entity\<lparr>Remote := Some upstream, Remotes := [upstream]\<rparr>"

definition stat_fails :: script where
  "stat_fails = demo\<lparr>stat_result := Inl (Error ''stat failed'')\<rparr>"

definition commits_fail :: script where
  "commits_fail =
     demo\<lparr>stat_result := Inr \<lparr>FileInfo.Name = ''demo'', ModTime = 9\<rparr>,
          branches_result := (None, [master, \<lparr>Branch.Name = ''topic''\<rparr>]),
          commits_result := (Some (Error ''log failed''), [])\<rparr>"

definition stat_and_checkout_fail :: script where
  "stat_and_checkout_fail =
     demo\<lparr>stat_result := Inl (Error ''stat failed''),
          checkout_result := Some (Error ''checkout failed'')\<rparr>"

section \<open>The fields that the operations leave alone\<close>

text \<open>The identity fields of an entity together with its \<open>State\<close>.\<close>

definition identity_and_State :: "'r RepoEntity \<Rightarrow> string \<times> string \<times> string \<times> RepoState" where
  "identity_and_State e = (RepoID e, Name e, AbsPath e, State e)"

section \<open>Unfolding and path lemmas\<close>

lemmas load_defs = loadLocalBranches_def loadCommits_def loadRemotes_def
lemmas io_defs = Open_def Stat_def PlainOpen_def called_def logged_def
lemmas git_defs = FetchWithGit_def MergeWithGit_def Checkout_def
lemmas init_defs = InitializeRepository_def Open_def Stat_def PlainOpen_def load_defs
  getActiveBranch_def switchRemoteBranch_def called_def logged_def
lemmas demo_defs = scripted_def demo_def start_def demo_entity_def master_def origin_def
  origin_master_def upstream_def
lemmas script_defs = fetch_fails_def merge_fails_def merge_and_stat_fail_def empty_repo_def
  no_remotes_def untracked_def untracked_entity_def stat_fails_def commits_fail_def
  stat_and_checkout_fail_def
lemmas op_defs = Fetch_def Merge_def Pull_def Refresh_def InitializeRepository_def
  Remote_Name_def Remote_Branch_Name_def getActiveBranch_def switchRemoteBranch_def
  RemoteBranchNotFound_def errors_New_def os_ErrInvalid_def EmptyRepository_def NoRemote_def

lemma Refresh_calls:
  "\<exists>cs. calls (snd (snd (Refresh env e s))) = calls s @ Call_Refresh # cs"
  by (auto simp: Refresh_def load_defs io_defs Let_def
           split: prod.splits sum.splits option.splits)

lemma Refresh_sys:
  "Refresh env e s = (err, e', s') \<Longrightarrow> world s' = world s \<and> log s' = log s"
  by (auto simp: Refresh_def load_defs io_defs Let_def
           split: prod.splits sum.splits option.splits)

lemma Refresh_frame:
  "Refresh env e s = (err, e', s') \<Longrightarrow>
     State e' = State e \<and> RepoID e' = RepoID e \<and> Name e' = Name e \<and> AbsPath e' = AbsPath e
     \<and> Branch e' = Branch e \<and> Remote e' = Remote e \<and> Commit e' = Commit e"
  by (auto simp: Refresh_def load_defs io_defs Let_def
           split: prod.splits sum.splits option.splits)

lemma Checkout_calls:
  "Checkout env e b s = (cerr, s1) \<Longrightarrow> calls s1 = calls s @ [Call_Checkout b] \<and> log s1 = log s"
  by (auto simp: Checkout_def called_def split: prod.splits)

lemma FetchWithGit_calls:
  "FetchWithGit env e rm s = (ferr, s1) \<Longrightarrow>
     calls s1 = calls s @ [Call_FetchWithGit rm] \<and> log s1 = log s"
  by (auto simp: FetchWithGit_def called_def split: prod.splits)

lemma MergeWithGit_calls:
  "MergeWithGit env e bn s = (merr, s1) \<Longrightarrow>
     calls s1 = calls s @ [Call_MergeWithGit bn] \<and> log s1 = log s"
  by (auto simp: MergeWithGit_def called_def split: prod.splits)

lemma Fetch_failed:
  "Remote_Name e = Some rm \<Longrightarrow> FetchWithGit env e rm s = (Some err, s1) \<Longrightarrow>
     Fetch env e s =
       Done (Some err, e, logged (Trace [(''remote'', rm)] ''Error while fetching remote'') s1)"
  by (simp add: Fetch_def)

lemma Fetch_fetched:
  "Remote_Name e = Some rm \<Longrightarrow> FetchWithGit env e rm s = (None, s1) \<Longrightarrow>
   Refresh env e s1 = (rerr, e1, s2) \<Longrightarrow> Checkout env e1 (Branch e1) s2 = (cerr, s3) \<Longrightarrow>
     Fetch env e s = Done (None, e1, s3)"
  by (simp add: Fetch_def)

lemma Merge_nil:
  "Remote_Branch_Name e = None \<Longrightarrow> Merge env e s = Panic"
  by (simp add: Merge_def split: prod.splits)

lemma Merge_failed:
  "Remote_Branch_Name e = Some bn \<Longrightarrow> Checkout env e (Branch e) s = (cerr, s1) \<Longrightarrow>
   MergeWithGit env e bn s1 = (Some err, s2) \<Longrightarrow>
   Refresh env e (logged (Trace [(''branch'', bn)] ''Error while merge to branch'') s2)
     = (rerr, e1, s3) \<Longrightarrow>
     Merge env e s = Done (Some err, e1, s3)"
  by (simp add: Merge_def)

lemma Merge_merged:
  "Remote_Branch_Name e = Some bn \<Longrightarrow> Checkout env e (Branch e) s = (cerr, s1) \<Longrightarrow>
   MergeWithGit env e bn s1 = (None, s2) \<Longrightarrow> Refresh env e s2 = (rerr, e1, s3) \<Longrightarrow>
     Merge env e s = Done (None, e1, s3)"
  by (simp add: Merge_def)

lemma Pull_fetch_failed:
  "Remote_Name e = Some rm \<Longrightarrow> FetchWithGit env e rm s = (Some err, s1) \<Longrightarrow>
     Pull env e s =
       Done (Some err, e, logged (Trace [(''remote'', rm)] ''Error while fetching remote'') s1)"
  by (simp add: Pull_def)

lemma Pull_nil:
  "Remote_Name e = Some rm \<Longrightarrow> FetchWithGit env e rm s = (None, s1) \<Longrightarrow>
   Remote_Branch_Name e = None \<Longrightarrow> Pull env e s = Panic"
  by (simp add: Pull_def split: prod.splits)

lemma Pull_merge_failed:
  "Remote_Name e = Some rm \<Longrightarrow> FetchWithGit env e rm s = (None, s1) \<Longrightarrow>
   Checkout env e (Branch e) s1 = (cerr, s2) \<Longrightarrow> Remote_Branch_Name e = Some bn \<Longrightarrow>
   MergeWithGit env e bn s2 = (Some err, s3) \<Longrightarrow>
   Refresh env e (logged (Trace [(''branch'', bn)] ''Error while merge to branch'') s3)
     = (rerr, e1, s4) \<Longrightarrow>
     Pull env e s = Done (Some err, e1, s4)"
  by (simp add: Pull_def)

lemma Pull_merged:
  "Remote_Name e = Some rm \<Longrightarrow> FetchWithGit env e rm s = (None, s1) \<Longrightarrow>
   Checkout env e (Branch e) s1 = (cerr, s2) \<Longrightarrow> Remote_Branch_Name e = Some bn \<Longrightarrow>
   MergeWithGit env e bn s2 = (None, s3) \<Longrightarrow> Refresh env e s3 = (rerr, e1, s4) \<Longrightarrow>
   Checkout env e1 (Branch e1) s4 = (cerr', s5) \<Longrightarrow>
     Pull env e s = Done (None, e1, s5)"
  by (simp add: Pull_def)

section \<open>Operation errors and Refresh\<close>

text \<open>
  Claim C1, as stated, fails: when the fetch of the engine fails, \<open>Fetch\<close> gives the error
  back at once. In the example the only call made is the fetch itself; no \<open>Refresh\<close> is
  attempted and the entity is the one given.
\<close>

theorem Fetch_failure_returns_without_Refresh:
  "Fetch scripted demo_entity (start fetch_fails) =
     Done (Some (Error ''fetch failed''), demo_entity,
           \<lparr>world = fetch_fails,
            log = [Trace [(''remote'', ''origin'')] ''Error while fetching remote''],
            calls = [Call_FetchWithGit ''origin'']\<rparr>)
   \<and> Call_Refresh \<notin> set [Call_FetchWithGit ''origin'']"
  by (simp add: op_defs demo_defs script_defs git_defs io_defs)

text \<open>
  Claim C1, amended: for every call of \<open>Merge\<close> or \<open>Pull\<close> in which the merge of the engine
  fails, a \<open>Refresh\<close> of the entity is attempted after the merge and before the merge error
  is returned; for every call of \<open>Fetch\<close> or \<open>Pull\<close> in which the fetch of the engine fails,
  the fetch error is returned at once, the fetch being the only call made (no \<open>Refresh\<close>) and
  the entity left as it was.
\<close>

theorem merge_failure_refreshes_fetch_failure_returns:
  "(Remote_Branch_Name e = Some bn
      \<and> fst (MergeWithGit env e bn (snd (Checkout env e (Branch e) s))) = Some err \<longrightarrow>
      (\<exists>e' s' cs. Merge env e s = Done (Some err, e', s')
         \<and> calls s' = calls s @ Call_Checkout (Branch e) # Call_MergeWithGit bn # Call_Refresh # cs))
   \<and> (Remote_Name e = Some rm \<and> Remote_Branch_Name e = Some bn
      \<and> fst (FetchWithGit env e rm s) = None
      \<and> fst (MergeWithGit env e bn
               (snd (Checkout env e (Branch e) (snd (FetchWithGit env e rm s))))) = Some err \<longrightarrow>
      (\<exists>e' s' cs. Pull env e s = Done (Some err, e', s')
         \<and> calls s' = calls s @ Call_FetchWithGit rm # Call_Checkout (Branch e)
                         # Call_MergeWithGit bn # Call_Refresh # cs))
   \<and> (Remote_Name e = Some rm \<and> fst (FetchWithGit env e rm s) = Some err \<longrightarrow>
      (\<exists>s'. Fetch env e s = Done (Some err, e, s') \<and> calls s' = calls s @ [Call_FetchWithGit rm])
      \<and> (\<exists>s'. Pull env e s = Done (Some err, e, s') \<and> calls s' = calls s @ [Call_FetchWithGit rm]))"
proof (intro conjI impI)
  assume h: "Remote_Branch_Name e = Some bn
      \<and> fst (MergeWithGit env e bn (snd (Checkout env e (Branch e) s))) = Some err"
  obtain cerr s1 where c: "Checkout env e (Branch e) s = (cerr, s1)"
    by (cases "Checkout env e (Branch e) s")
  obtain s2 where m: "MergeWithGit env e bn s1 = (Some err, s2)"
    using h c by (cases "MergeWithGit env e bn s1") simp
  let ?s3 = "logged (Trace [(''branch'', bn)] ''Error while merge to branch'') s2"
  obtain rerr e1 s4 where r: "Refresh env e ?s3 = (rerr, e1, s4)"
    by (cases "Refresh env e ?s3")
  obtain cs where "calls s4 = calls ?s3 @ Call_Refresh # cs"
    using Refresh_calls [of env e ?s3] r by auto
  then have "calls s4 = calls s @ Call_Checkout (Branch e) # Call_MergeWithGit bn # Call_Refresh # cs"
    using Checkout_calls [OF c] MergeWithGit_calls [OF m] by (simp add: logged_def)
  then show "\<exists>e' s' cs. Merge env e s = Done (Some err, e', s')
         \<and> calls s' = calls s @ Call_Checkout (Branch e) # Call_MergeWithGit bn # Call_Refresh # cs"
    using Merge_failed [OF _ c m r] h by blast
next
  assume h: "Remote_Name e = Some rm \<and> Remote_Branch_Name e = Some bn
      \<and> fst (FetchWithGit env e rm s) = None
      \<and> fst (MergeWithGit env e bn
               (snd (Checkout env e (Branch e) (snd (FetchWithGit env e rm s))))) = Some err"
  obtain s1 where f: "FetchWithGit env e rm s = (None, s1)"
    using h by (cases "FetchWithGit env e rm s") simp
  obtain cerr s2 where c: "Checkout env e (Branch e) s1 = (cerr, s2)"
    by (cases "Checkout env e (Branch e) s1")
  obtain s3 where m: "MergeWithGit env e bn s2 = (Some err, s3)"
    using h f c by (cases "MergeWithGit env e bn s2") simp
  let ?s4 = "logged (Trace [(''branch'', bn)] ''Error while merge to branch'') s3"
  obtain rerr e1 s5 where r: "Refresh env e ?s4 = (rerr, e1, s5)"
    by (cases "Refresh env e ?s4")
  obtain cs where "calls s5 = calls ?s4 @ Call_Refresh # cs"
    using Refresh_calls [of env e ?s4] r by auto
  then have "calls s5 = calls s @ Call_FetchWithGit rm # Call_Checkout (Branch e)
                         # Call_MergeWithGit bn # Call_Refresh # cs"
    using FetchWithGit_calls [OF f] Checkout_calls [OF c] MergeWithGit_calls [OF m]
    by (simp add: logged_def)
  moreover have "Pull env e s = Done (Some err, e1, s5)"
    using Pull_merge_failed [OF _ f c _ m r] h by blast
  ultimately show "\<exists>e' s' cs. Pull env e s = Done (Some err, e', s')
         \<and> calls s' = calls s @ Call_FetchWithGit rm # Call_Checkout (Branch e)
                         # Call_MergeWithGit bn # Call_Refresh # cs"
    by blast
next
  assume h: "Remote_Name e = Some rm \<and> fst (FetchWithGit env e rm s) = Some err"
  obtain s1 where f: "FetchWithGit env e rm s = (Some err, s1)"
    using h by (cases "FetchWithGit env e rm s") simp
  have "calls (logged (Trace [(''remote'', rm)] ''Error while fetching remote'') s1)
          = calls s @ [Call_FetchWithGit rm]"
    using FetchWithGit_calls [OF f] by (simp add: logged_def)
  then show "\<exists>s'. Fetch env e s = Done (Some err, e, s') \<and> calls s' = calls s @ [Call_FetchWithGit rm]"
    using Fetch_failed [OF _ f] h by blast
next
  assume h: "Remote_Name e = Some rm \<and> fst (FetchWithGit env e rm s) = Some err"
  obtain s1 where f: "FetchWithGit env e rm s = (Some err, s1)"
    using h by (cases "FetchWithGit env e rm s") simp
  have "calls (logged (Trace [(''remote'', rm)] ''Error while fetching remote'') s1)
          = calls s @ [Call_FetchWithGit rm]"
    using FetchWithGit_calls [OF f] by (simp add: logged_def)
  then show "\<exists>s'. Pull env e s = Done (Some err, e, s') \<and> calls s' = calls s @ [Call_FetchWithGit rm]"
    using Pull_fetch_failed [OF _ f] h by blast
qed

text \<open>The amended claim at the example: a failing merge, and a failing fetch.\<close>

theorem merge_failure_refreshes_fetch_failure_returns_witness:
  "(\<exists>e' s' cs. Merge scripted demo_entity (start merge_fails) = Done (Some (Error ''conflict''), e', s')
      \<and> calls s' = Call_Checkout (Some master) # Call_MergeWithGit ''origin/master''
                     # Call_Refresh # cs)
   \<and> (\<exists>s'. Fetch scripted demo_entity (start fetch_fails)
               = Done (Some (Error ''fetch failed''), demo_entity, s')
          \<and> calls s' = [Call_FetchWithGit ''origin''])"
proof -
  have a: "Remote_Branch_Name demo_entity = Some ''origin/master''"
    by (simp add: Remote_Branch_Name_def demo_defs)
  have b: "fst (MergeWithGit scripted demo_entity ''origin/master''
             (snd (Checkout scripted demo_entity (Branch demo_entity) (start merge_fails))))
           = Some (Error ''conflict'')"
    by (simp add: git_defs demo_defs script_defs called_def)
  have c: "Remote_Name demo_entity = Some ''origin''"
    by (simp add: Remote_Name_def demo_defs)
  have d: "fst (FetchWithGit scripted demo_entity ''origin'' (start fetch_fails))
           = Some (Error ''fetch failed'')"
    by (simp add: git_defs demo_defs script_defs called_def)
  have e: "Branch demo_entity = Some master" "calls (start merge_fails) = []"
    "calls (start fetch_fails) = []"
    by (simp_all add: demo_defs)
  show ?thesis
    using merge_failure_refreshes_fetch_failure_returns
            [of demo_entity "''origin/master''" scripted "start merge_fails" "Error ''conflict''"]
      merge_failure_refreshes_fetch_failure_returns
            [of demo_entity _ scripted "start fetch_fails" "Error ''fetch failed''" "''origin''"]
      a b c d e
    by simp
qed

section \<open>Nil pointers in Fetch, Merge and Pull\<close>

text \<open>
  Claim C2, as stated, fails: an entity with a remote and an active branch, but without a
  selected remote-tracking branch on the remote, makes \<open>Merge\<close> and \<open>Pull\<close> panic at
  \<open>entity.Remote.Branch.Name\<close>.
\<close>

theorem Merge_panics_without_tracking_branch:
  "Remote untracked_entity \<noteq> None \<and> Branch untracked_entity \<noteq> None
   \<and> Merge scripted untracked_entity (start demo) = Panic
   \<and> Pull scripted untracked_entity (start demo) = Panic"
  by (simp add: op_defs demo_defs script_defs git_defs io_defs)

text \<open>
  \<open>InitializeRepository\<close> hands out that entity, with a nil error, for a repository whose
  only remote has no remote-tracking branch of the name looked for.
\<close>

lemma demo_untracked_init:
  "InitializeRepository scripted ''/repos/demo'' (start untracked) =
     Done (Some untracked_entity, None,
           \<lparr>world = untracked, log = [],
            calls = [Call_os_Open ''/repos/demo'', Call_Stat, Call_PlainOpen ''/repos/demo'',
                     Call_RandomString 8, Call_loadLocalBranches, Call_loadCommits,
                     Call_loadRemotes, Call_getActiveBranch,
                     Call_switchRemoteBranch ''upstream/master'']\<rparr>)"
  by (simp add: op_defs demo_defs script_defs load_defs io_defs)

text \<open>
  Claim C2, amended: for every entity whose \<open>Remote\<close>, \<open>Branch\<close> and \<open>Remote.Branch\<close>
  fields are non-nil, each of \<open>Fetch\<close>, \<open>Merge\<close> and \<open>Pull\<close> executes without
  dereferencing a nil pointer.
\<close>

theorem no_panic_with_remote_branch_selected:
  assumes "Remote e = Some r" and "Branch e = Some b" and "Remote.Branch r = Some rb"
  shows "Fetch env e s \<noteq> Panic \<and> Merge env e s \<noteq> Panic \<and> Pull env e s \<noteq> Panic"
proof -
  have n: "Remote_Name e = Some (Remote.Name r)"
    using assms by (simp add: Remote_Name_def)
  have bn: "Remote_Branch_Name e = Some (RemoteBranch.Name rb)"
    using assms by (simp add: Remote_Branch_Name_def)
  have "Fetch env e s \<noteq> Panic"
    using n by (simp add: Fetch_def split: prod.splits option.splits)
  moreover have "Merge env e s \<noteq> Panic"
    using bn by (simp add: Merge_def split: prod.splits option.splits)
  moreover have "Pull env e s \<noteq> Panic"
    using n bn by (simp add: Pull_def split: prod.splits option.splits)
  ultimately show ?thesis by simp
qed

theorem no_panic_with_remote_branch_selected_witness:
  "Fetch scripted demo_entity (start demo) \<noteq> Panic
   \<and> Merge scripted demo_entity (start demo) \<noteq> Panic
   \<and> Pull scripted demo_entity (start demo) \<noteq> Panic"
proof -
  have "Remote demo_entity = Some (origin\<lparr>Remote.Branch := Some origin_master\<rparr>)"
    and "Branch demo_entity = Some master"
    and "Remote.Branch (origin\<lparr>Remote.Branch := Some origin_master\<rparr>) = Some origin_master"
    by (simp_all add: demo_entity_def)
  then show ?thesis by (rule no_panic_with_remote_branch_selected)
qed

section \<open>A failing Refresh after a failing merge\<close>

text \<open>
  Claim C3, as stated, fails: in the example the merge fails with one error and the
  \<open>Refresh\<close> that follows fails with another; \<open>Merge\<close> returns the merge error alone, and
  the log holds the entry of the merge alone.
\<close>

theorem Refresh_failure_not_surfaced:
  "Merge scripted demo_entity (start merge_and_stat_fail) =
     Done (Some (Error ''conflict''), demo_entity,
           \<lparr>world = merge_and_stat_fail,
            log = [Trace [(''branch'', ''origin/master'')] ''Error while merge to branch''],
            calls = [Call_Checkout (Some master), Call_MergeWithGit ''origin/master'',
                     Call_Refresh, Call_os_Open ''/repos/demo'', Call_Stat]\<rparr>)
   \<and> Refresh scripted demo_entity
        \<lparr>world = merge_and_stat_fail,
         log = [Trace [(''branch'', ''origin/master'')] ''Error while merge to branch''],
         calls = [Call_Checkout (Some master), Call_MergeWithGit ''origin/master'']\<rparr> =
       (Some (Error ''stat failed''), demo_entity,
        \<lparr>world = merge_and_stat_fail,
         log = [Trace [(''branch'', ''origin/master'')] ''Error while merge to branch''],
         calls = [Call_Checkout (Some master), Call_MergeWithGit ''origin/master'',
                  Call_Refresh, Call_os_Open ''/repos/demo'', Call_Stat]\<rparr>)
   \<and> Error ''stat failed'' \<noteq> Error ''conflict''"
  by (simp add: op_defs demo_defs script_defs git_defs io_defs)

text \<open>
  Claim C3, amended: for every call of \<open>Merge\<close> or \<open>Pull\<close> in which the merge of the
  engine fails, the caller receives exactly the merge error, whatever the \<open>Refresh\<close> that
  follows returns: the result of that \<open>Refresh\<close> is dropped, neither returned nor logged.
\<close>

theorem merge_error_returned_alone:
  assumes "Remote_Branch_Name e = Some bn"
    and "MergeWithGit env e bn (snd (Checkout env e (Branch e) s1)) = (Some err, s2)"
    and "Refresh env e (logged (Trace [(''branch'', bn)] ''Error while merge to branch'') s2)
           = (rerr, e', s')"
  shows "Merge env e s1 = Done (Some err, e', s')
       \<and> (Remote_Name e = Some rm \<and> FetchWithGit env e rm s0 = (None, s1) \<longrightarrow>
            Pull env e s0 = Done (Some err, e', s'))
       \<and> log s' = log s1 @ [Trace [(''branch'', bn)] ''Error while merge to branch'']"
proof -
  obtain cerr sc where c: "Checkout env e (Branch e) s1 = (cerr, sc)"
    by (cases "Checkout env e (Branch e) s1")
  have m: "MergeWithGit env e bn sc = (Some err, s2)"
    using assms(2) c by simp
  have "Merge env e s1 = Done (Some err, e', s')"
    using Merge_failed [OF assms(1) c m assms(3)] .
  moreover have "Remote_Name e = Some rm \<and> FetchWithGit env e rm s0 = (None, s1) \<longrightarrow>
            Pull env e s0 = Done (Some err, e', s')"
    using Pull_merge_failed [OF _ _ c assms(1) m assms(3)] by blast
  moreover have "log s' = log s1 @ [Trace [(''branch'', bn)] ''Error while merge to branch'']"
    using Refresh_sys [OF assms(3)] Checkout_calls [OF c] MergeWithGit_calls [OF m]
    by (simp add: logged_def)
  ultimately show ?thesis by simp
qed

theorem merge_error_returned_alone_witness:
  "Merge scripted demo_entity (start merge_and_stat_fail) =
     Done (Some (Error ''conflict''), demo_entity,
           \<lparr>world = merge_and_stat_fail,
            log = [Trace [(''branch'', ''origin/master'')] ''Error while merge to branch''],
            calls = [Call_Checkout (Some master), Call_MergeWithGit ''origin/master'',
                     Call_Refresh, Call_os_Open ''/repos/demo'', Call_Stat]\<rparr>)
   \<and> Pull scripted demo_entity (start merge_and_stat_fail) =
     Done (Some (Error ''conflict''), demo_entity,
           \<lparr>world = merge_and_stat_fail,
            log = [Trace [(''branch'', ''origin/master'')] ''Error while merge to branch''],
            calls = [Call_FetchWithGit ''origin'', Call_Checkout (Some master),
                     Call_MergeWithGit ''origin/master'',
                     Call_Refresh, Call_os_Open ''/repos/demo'', Call_Stat]\<rparr>)"
proof -
  let ?l = "[Trace [(''branch'', ''origin/master'')] ''Error while merge to branch'']"
  let ?s' = "\<lambda>pre. \<lparr>world = merge_and_stat_fail, log = ?l,
            calls = pre @ [Call_Checkout (Some master), Call_MergeWithGit ''origin/master'',
                     Call_Refresh, Call_os_Open ''/repos/demo'', Call_Stat]\<rparr>"
  let ?s2 = "\<lambda>pre. \<lparr>world = merge_and_stat_fail, log = [],
            calls = pre @ [Call_Checkout (Some master), Call_MergeWithGit ''origin/master'']\<rparr>"
  let ?s1 = "\<lparr>world = merge_and_stat_fail, log = [], calls = [Call_FetchWithGit ''origin'']\<rparr>"
  have a: "Remote_Branch_Name demo_entity = Some ''origin/master''"
    by (simp add: Remote_Branch_Name_def demo_defs)
  have b: "MergeWithGit scripted demo_entity ''origin/master''
             (snd (Checkout scripted demo_entity (Branch demo_entity) (start merge_and_stat_fail)))
           = (Some (Error ''conflict''), ?s2 [])"
    by (simp add: git_defs demo_defs script_defs called_def)
  have c: "Refresh scripted demo_entity
             (logged (Trace [(''branch'', ''origin/master'')] ''Error while merge to branch'') (?s2 []))
           = (Some (Error ''stat failed''), demo_entity, ?s' [])"
    by (simp add: Refresh_def demo_defs script_defs io_defs)
  have b': "MergeWithGit scripted demo_entity ''origin/master''
             (snd (Checkout scripted demo_entity (Branch demo_entity) ?s1))
           = (Some (Error ''conflict''), ?s2 [Call_FetchWithGit ''origin''])"
    by (simp add: git_defs demo_defs script_defs called_def)
  have c': "Refresh scripted demo_entity
             (logged (Trace [(''branch'', ''origin/master'')] ''Error while merge to branch'')
                (?s2 [Call_FetchWithGit ''origin'']))
           = (Some (Error ''stat failed''), demo_entity, ?s' [Call_FetchWithGit ''origin''])"
    by (simp add: Refresh_def demo_defs script_defs io_defs)
  have d: "Remote_Name demo_entity = Some ''origin''"
    by (simp add: Remote_Name_def demo_defs)
  have f: "FetchWithGit scripted demo_entity ''origin'' (start merge_and_stat_fail) = (None, ?s1)"
    by (simp add: git_defs demo_defs script_defs called_def)
  show ?thesis
    using merge_error_returned_alone [OF a b c] merge_error_returned_alone [OF a b' c', of "''origin''" "start merge_and_stat_fail"] d f
    by simp
qed

section \<open>Partial failure of InitializeRepository\<close>



section \<open>Pull and the fetch followed by Merge\<close>

text \<open>
  Claim C5: for every entity on which both the fetch of the remote and the merge succeed,
  \<open>Pull\<close> returns nil and leaves the entity equal to the one left by the fetch of the
  remote followed by the composite \<open>Merge\<close>. What \<open>Pull\<close> does beyond that is one more
  \<open>Checkout\<close> of the active branch, which acts on the repository on disk.
\<close>

theorem Pull_refines_fetch_then_Merge:
  assumes "Remote_Name e = Some rm" and "Remote_Branch_Name e = Some bn"
    and "FetchWithGit env e rm s = (None, s1)"
    and "fst (MergeWithGit env e bn (snd (Checkout env e (Branch e) s1))) = None"
  shows "\<exists>e' s'. Fetch_then_Merge env e s = Done (None, e', s')
           \<and> Pull env e s = Done (None, e', snd (Checkout env e' (Branch e') s'))"
proof -
  obtain cerr s2 where c: "Checkout env e (Branch e) s1 = (cerr, s2)"
    by (cases "Checkout env e (Branch e) s1")
  obtain s3 where m: "MergeWithGit env e bn s2 = (None, s3)"
    using assms(4) c by (cases "MergeWithGit env e bn s2") simp
  obtain rerr e1 s4 where r: "Refresh env e s3 = (rerr, e1, s4)"
    by (cases "Refresh env e s3")
  obtain cerr' s5 where c': "Checkout env e1 (Branch e1) s4 = (cerr', s5)"
    by (cases "Checkout env e1 (Branch e1) s4")
  have "Merge env e s1 = Done (None, e1, s4)"
    using Merge_merged [OF assms(2) c m r] .
  then have "Fetch_then_Merge env e s = Done (None, e1, s4)"
    using assms(1,3) by (simp add: Fetch_then_Merge_def)
  moreover have "Pull env e s = Done (None, e1, snd (Checkout env e1 (Branch e1) s4))"
    using Pull_merged [OF assms(1,3) c assms(2) m r c'] c' by simp
  ultimately show ?thesis by blast
qed

text \<open>The claim at the example repository.\<close>

theorem Pull_refines_fetch_then_Merge_witness:
  "\<exists>e' s'. Fetch_then_Merge scripted demo_entity (start demo) = Done (None, e', s')
      \<and> Pull scripted demo_entity (start demo)
          = Done (None, e', snd (Checkout scripted e' (Branch e') s'))"
proof -
  have "Remote_Name demo_entity = Some ''origin''"
    and "Remote_Branch_Name demo_entity = Some ''origin/master''"
    and "FetchWithGit scripted demo_entity ''origin'' (start demo)
           = (None, \<lparr>world = demo, log = [], calls = [Call_FetchWithGit ''origin'']\<rparr>)"
    and "fst (MergeWithGit scripted demo_entity ''origin/master''
           (snd (Checkout scripted demo_entity (Branch demo_entity)
              \<lparr>world = demo, log = [], calls = [Call_FetchWithGit ''origin'']\<rparr>))) = None"
    by (simp_all add: Remote_Name_def Remote_Branch_Name_def git_defs demo_defs called_def)
  then show ?thesis by (rule Pull_refines_fetch_then_Merge)
qed

section \<open>Pull when the fetch fails\<close>

text \<open>
  Claim C6: for every call of \<open>Pull\<close> in which the fetch of the remote fails, no merge is
  attempted (the fetch is the only call made) and \<open>Pull\<close> returns the fetch error with
  the entity unchanged in every field; the one trace it leaves is the log entry of the fetch.
\<close>

theorem Pull_fetch_failure_leaves_entity:
  assumes "Remote_Name e = Some rm" and "fst (FetchWithGit env e rm s) = Some err"
  shows "\<exists>s'. Pull env e s = Done (Some err, e, s')
           \<and> calls s' = calls s @ [Call_FetchWithGit rm]
           \<and> log s' = log s @ [Trace [(''remote'', rm)] ''Error while fetching remote'']"
proof -
  obtain s1 where f: "FetchWithGit env e rm s = (Some err, s1)"
    using assms(2) by (cases "FetchWithGit env e rm s") simp
  let ?s' = "logged (Trace [(''remote'', rm)] ''Error while fetching remote'') s1"
  have "Pull env e s = Done (Some err, e, ?s')"
    using Pull_fetch_failed [OF assms(1) f] .
  moreover have "calls ?s' = calls s @ [Call_FetchWithGit rm]"
    and "log ?s' = log s @ [Trace [(''remote'', rm)] ''Error while fetching remote'']"
    using FetchWithGit_calls [OF f] by (simp_all add: logged_def)
  ultimately show ?thesis by blast
qed

text \<open>The claim at the example with a failing fetch.\<close>

theorem Pull_fetch_failure_leaves_entity_witness:
  "\<exists>s'. Pull scripted demo_entity (start fetch_fails)
           = Done (Some (Error ''fetch failed''), demo_entity, s')
      \<and> calls s' = [Call_FetchWithGit ''origin'']
      \<and> log s' = [Trace [(''remote'', ''origin'')] ''Error while fetching remote'']"
proof -
  have a: "Remote_Name demo_entity = Some ''origin''"
    by (simp add: Remote_Name_def demo_defs)
  have b: "fst (FetchWithGit scripted demo_entity ''origin'' (start fetch_fails))
           = Some (Error ''fetch failed'')"
    by (simp add: git_defs demo_defs script_defs called_def)
  have c: "calls (start fetch_fails) = []" "log (start fetch_fails) = []"
    by (simp_all add: start_def)
  show ?thesis using Pull_fetch_failure_leaves_entity [OF a b] c by simp
qed

section \<open>The order of Refresh\<close>

text \<open>
  Claim C7: \<open>Refresh\<close> opens and stats the directory, re-opens the repository handle, puts
  the handle and the fresh modification time in the entity, and then reloads branches,
  commits and remotes in exactly that order. On the first sub-step that fails it returns
  the error of that sub-step and makes no further call, and every value loaded by the
  earlier sub-steps stays in the entity (no rollback). A failing stat or a failing re-open
  leaves the entity as it was.
\<close>

theorem Refresh_order_fail_fast:
  "(let p = AbsPath e; w = world s;
        stat = (case os_Open env w p of Inl _ \<Rightarrow> Inl os_ErrInvalid | Inr f \<Rightarrow> file_Stat env w f);
        steps = [Call_Refresh, Call_os_Open p, Call_Stat, Call_PlainOpen p,
                 Call_loadLocalBranches, Call_loadCommits, Call_loadRemotes]
    in (\<forall>err. stat = Inl err \<longrightarrow>
          Refresh env e s = (Some err, e, s\<lparr>calls := calls s @ take 3 steps\<rparr>))
     \<and> (\<forall>fileInfo err. stat = Inr fileInfo \<and> git_PlainOpen env w p = Inl err \<longrightarrow>
          Refresh env e s = (Some err, e, s\<lparr>calls := calls s @ take 4 steps\<rparr>))
     \<and> (\<forall>fileInfo r. stat = Inr fileInfo \<and> git_PlainOpen env w p = Inr r \<longrightarrow>
          (let e2 = e\<lparr>Repository := r, ModTime := FileInfo.ModTime fileInfo\<rparr>;
               (err3, bs) = adapter_ListLocalBranches env w e2;
               e3 = e2\<lparr>Branches := bs\<rparr>;
               (err4, cs) = adapter_ListCommits env w e3;
               e4 = e3\<lparr>Commits := cs\<rparr>;
               (err5, rs) = adapter_ListRemotes env w e4;
               e5 = e4\<lparr>Remotes := rs\<rparr>
           in (err3 \<noteq> None \<longrightarrow>
                 Refresh env e s = (err3, e3, s\<lparr>calls := calls s @ take 5 steps\<rparr>))
            \<and> (err3 = None \<and> err4 \<noteq> None \<longrightarrow>
                 Refresh env e s = (err4, e4, s\<lparr>calls := calls s @ take 6 steps\<rparr>))
            \<and> (err3 = None \<and> err4 = None \<longrightarrow>
                 Refresh env e s = (err5, e5, s\<lparr>calls := calls s @ steps\<rparr>)))))"
  by (auto simp: Refresh_def load_defs io_defs Let_def
           split: sum.splits option.splits prod.splits)

text \<open>The claim at a failing load of the commits, and at a failing stat.\<close>

theorem Refresh_order_fail_fast_witness:
  "Refresh scripted demo_entity (start commits_fail) =
     (Some (Error ''log failed''),
      demo_entity\<lparr>ModTime := 9, Branches := [master, \<lparr>Branch.Name = ''topic''\<rparr>], Commits := []\<rparr>,
      \<lparr>world = commits_fail, log = [],
       calls = [Call_Refresh, Call_os_Open ''/repos/demo'', Call_Stat,
                Call_PlainOpen ''/repos/demo'', Call_loadLocalBranches, Call_loadCommits]\<rparr>)
   \<and> Refresh scripted demo_entity (start stat_fails) =
     (Some (Error ''stat failed''), demo_entity,
      \<lparr>world = stat_fails, log = [],
       calls = [Call_Refresh, Call_os_Open ''/repos/demo'', Call_Stat]\<rparr>)"
  using Refresh_order_fail_fast [of demo_entity "start commits_fail" scripted]
    Refresh_order_fail_fast [of demo_entity "start stat_fails" scripted]
  by (simp add: demo_defs script_defs Let_def)

section \<open>State and the identity fields\<close>

lemma Refresh_identity:
  "Refresh env e s = (err, e', s') \<Longrightarrow> identity_and_State e' = identity_and_State e"
  using Refresh_frame [of env e s err e' s'] by (simp add: identity_and_State_def)

lemma demo_Pull:
  "Pull scripted demo_entity (start demo) =
     Done (None, demo_entity\<lparr>Remotes := [origin]\<rparr>,
           \<lparr>world = demo, log = [],
            calls = [Call_FetchWithGit ''origin'', Call_Checkout (Some master),
                     Call_MergeWithGit ''origin/master'', Call_Refresh,
                     Call_os_Open ''/repos/demo'', Call_Stat, Call_PlainOpen ''/repos/demo'',
                     Call_loadLocalBranches, Call_loadCommits, Call_loadRemotes,
                     Call_Checkout (Some master)]\<rparr>)"
  by (simp add: op_defs demo_defs git_defs load_defs io_defs)

text \<open>
  Claim C8: none of \<open>Fetch\<close>, \<open>Merge\<close>, \<open>Pull\<close> and \<open>Refresh\<close> writes the \<open>State\<close> field
  or the identity fields \<open>RepoID\<close>, \<open>Name\<close> and \<open>AbsPath\<close> of the entity; the one place
  of the file that writes \<open>State\<close> is \<open>InitializeRepository\<close>, which sets it to
  \<open>Available\<close>.
\<close>

theorem State_and_identity_untouched:
  "(\<forall>err e' s'. Fetch env e s = Done (err, e', s') \<longrightarrow> identity_and_State e' = identity_and_State e)
   \<and> (\<forall>err e' s'. Merge env e s = Done (err, e', s') \<longrightarrow> identity_and_State e' = identity_and_State e)
   \<and> (\<forall>err e' s'. Pull env e s = Done (err, e', s') \<longrightarrow> identity_and_State e' = identity_and_State e)
   \<and> (\<forall>err e' s'. Refresh env e s = (err, e', s') \<longrightarrow> identity_and_State e' = identity_and_State e)
   \<and> (\<forall>x err s'. InitializeRepository env directory s = Done (Some x, err, s') \<longrightarrow>
         State x = Available)"
proof (intro conjI allI impI)
  fix err e' s'
  assume "Fetch env e s = Done (err, e', s')"
  then show "identity_and_State e' = identity_and_State e"
    by (auto simp: Fetch_def split: option.splits prod.splits dest: Refresh_identity)
next
  fix err e' s'
  assume "Merge env e s = Done (err, e', s')"
  then show "identity_and_State e' = identity_and_State e"
    by (auto simp: Merge_def split: option.splits prod.splits dest: Refresh_identity)
next
  fix err e' s'
  assume "Pull env e s = Done (err, e', s')"
  then show "identity_and_State e' = identity_and_State e"
    by (auto simp: Pull_def split: option.splits prod.splits dest: Refresh_identity)
next
  fix err e' s'
  assume "Refresh env e s = (err, e', s')"
  then show "identity_and_State e' = identity_and_State e"
    by (rule Refresh_identity)
next
  fix x err s'
  assume "InitializeRepository env directory s = Done (Some x, err, s')"
  then show "State x = Available"
    by (auto simp: init_defs case_prod_beta Let_def
             split: sum.splits list.splits option.splits)
qed

text \<open>The claim at a \<open>Pull\<close> of the example repository.\<close>

theorem State_and_identity_untouched_witness:
  "\<exists>err e' s'. Pull scripted demo_entity (start demo) = Done (err, e', s')
      \<and> identity_and_State e' = (''k3x9q2ab'', ''demo'', ''/repos/demo'', Available)"
proof -
  have "identity_and_State (demo_entity\<lparr>Remotes := [origin]\<rparr>) = identity_and_State demo_entity"
    using State_and_identity_untouched [of scripted demo_entity "start demo", THEN conjunct2, THEN conjunct2, THEN conjunct1]
      demo_Pull by blast
  moreover have "identity_and_State demo_entity = (''k3x9q2ab'', ''demo'', ''/repos/demo'', Available)"
    by (simp add: identity_and_State_def demo_entity_def)
  ultimately show ?thesis using demo_Pull by simp
qed

section \<open>A remote-tracking branch that does not exist\<close>



section \<open>Errors of Checkout and of the Refresh after a success\<close>

text \<open>
  Claim C10: \<open>Fetch\<close>, \<open>Merge\<close> and \<open>Pull\<close> drop the error of every \<open>Checkout\<close> call and
  of the \<open>Refresh\<close> on their success paths: once the fetch, respectively the merge, of the
  engine has succeeded, each of the three returns nil whatever the \<open>Refresh\<close> and the
  checkouts returned, failures included.
\<close>

theorem success_drops_Checkout_and_Refresh_errors:
  "(Remote_Name e = Some rm \<and> FetchWithGit env e rm s = (None, s1)
      \<and> Refresh env e s1 = (rerr, e1, s2) \<and> Checkout env e1 (Branch e1) s2 = (cerr, s3) \<longrightarrow>
      Fetch env e s = Done (None, e1, s3))
   \<and> (Remote_Branch_Name e = Some bn \<and> Checkout env e (Branch e) s = (cerr, s1)
      \<and> MergeWithGit env e bn s1 = (None, s2) \<and> Refresh env e s2 = (rerr, e1, s3) \<longrightarrow>
      Merge env e s = Done (None, e1, s3))
   \<and> (Remote_Name e = Some rm \<and> FetchWithGit env e rm s = (None, s1)
      \<and> Checkout env e (Branch e) s1 = (cerr, s2) \<and> Remote_Branch_Name e = Some bn
      \<and> MergeWithGit env e bn s2 = (None, s3) \<and> Refresh env e s3 = (rerr, e1, s4)
      \<and> Checkout env e1 (Branch e1) s4 = (cerr', s5) \<longrightarrow>
      Pull env e s = Done (None, e1, s5))"
  using Fetch_fetched [of e rm env s s1 rerr e1 s2 cerr s3]
    Merge_merged [of e bn env s cerr s1 s2 rerr e1 s3]
    Pull_merged [of e rm env s s1 cerr s2 bn s3 rerr e1 s4 cerr' s5]
  by blast

text \<open>The claim at the example with a failing stat and a failing checkout.\<close>

theorem success_drops_Checkout_and_Refresh_errors_witness:
  "Fetch scripted demo_entity (start stat_and_checkout_fail) =
     Done (None, demo_entity,
           \<lparr>world = stat_and_checkout_fail, log = [],
            calls = [Call_FetchWithGit ''origin'', Call_Refresh, Call_os_Open ''/repos/demo'',
                     Call_Stat, Call_Checkout (Some master)]\<rparr>)
   \<and> fst (Refresh scripted demo_entity
            \<lparr>world = stat_and_checkout_fail, log = [], calls = [Call_FetchWithGit ''origin'']\<rparr>)
       = Some (Error ''stat failed'')
   \<and> fst (Checkout scripted demo_entity (Some master)
            \<lparr>world = stat_and_checkout_fail, log = [],
             calls = [Call_FetchWithGit ''origin'', Call_Refresh, Call_os_Open ''/repos/demo'',
                      Call_Stat]\<rparr>)
       = Some (Error ''checkout failed'')"
proof -
  let ?s1 = "\<lparr>world = stat_and_checkout_fail, log = [], calls = [Call_FetchWithGit ''origin'']\<rparr>"
  let ?s2 = "\<lparr>world = stat_and_checkout_fail, log = [],
             calls = [Call_FetchWithGit ''origin'', Call_Refresh, Call_os_Open ''/repos/demo'',
                      Call_Stat]\<rparr>"
  let ?s3 = "\<lparr>world = stat_and_checkout_fail, log = [],
            calls = [Call_FetchWithGit ''origin'', Call_Refresh, Call_os_Open ''/repos/demo'',
                     Call_Stat, Call_Checkout (Some master)]\<rparr>"
  have a: "Remote_Name demo_entity = Some ''origin''"
    by (simp add: Remote_Name_def demo_defs)
  have b: "FetchWithGit scripted demo_entity ''origin'' (start stat_and_checkout_fail) = (None, ?s1)"
    by (simp add: git_defs demo_defs script_defs called_def)
  have c: "Refresh scripted demo_entity ?s1 = (Some (Error ''stat failed''), demo_entity, ?s2)"
    by (simp add: Refresh_def demo_defs script_defs io_defs)
  have d: "Checkout scripted demo_entity (Branch demo_entity) ?s2
             = (Some (Error ''checkout failed''), ?s3)"
    by (simp add: git_defs demo_defs script_defs called_def)
  have e: "Branch demo_entity = Some master"
    by (simp add: demo_defs)
  have "Fetch scripted demo_entity (start stat_and_checkout_fail) = Done (None, demo_entity, ?s3)"
    using success_drops_Checkout_and_Refresh_errors
            [of demo_entity "''origin''" scripted "start stat_and_checkout_fail" ?s1
                "Some (Error ''stat failed'')" demo_entity ?s2 "Some (Error ''checkout failed'')" ?s3]
      a b c d
    by blast
  then show ?thesis using c d e by simp
qed

end
